theory Spec2Isabelle
  imports Main
begin

section \<open>Exceptions\<close>

text \<open>
  The exceptions the modelled code can raise. \<open>ValueError\<close> is what the constructor of
  \<open>PasswordRules\<close> raises, \<open>ValidationError\<close> what \<open>validate\<close> raises on request, and
  \<open>TypeError\<close> what Python 3 raises when \<open>None\<close> is compared with an integer (the
  repository uses f-strings, so it runs on Python 3.6 or later).
\<close>

datatype error = ValueError string | TypeError | ValidationError string

section \<open>Password rules (event\_app/utils.py)\<close>

text \<open>
  A Python \<open>str\<close> is modelled as a \<open>string\<close>: one \<open>char\<close> per character of the
  password, so that \<open>length\<close> is Python's \<open>len\<close>.
\<close>

definition UPPERCASE :: "char set" where
  "UPPERCASE = set ''ABCDEFGHIJKLMNOPQRSTUVWXYZ''"

definition LOWERCASE :: "char set" where
  "LOWERCASE = set ''abcdefghijklmnopqrstuvwxyz''"

definition DIGITS :: "char set" where
  "DIGITS = set ''0123456789''"

text \<open>
  \<open>collections.Counter\<close>: a dictionary from keys to integers in which a missing key
  reads as 0.
\<close>

type_synonym Counter = "string \<rightharpoonup> int"

definition counter_get :: "Counter \<Rightarrow> string \<Rightarrow> int" where
  "counter_get counter key = (case counter key of None \<Rightarrow> 0 | Some n \<Rightarrow> n)"

definition counter_incr :: "Counter \<Rightarrow> string \<Rightarrow> Counter" where
  "counter_incr counter key = counter(key \<mapsto> counter_get counter key + 1)"

text \<open>The body of the \<open>for char in password\<close> loop of \<open>count_characters\<close>.\<close>

definition count_step :: "char \<Rightarrow> Counter \<Rightarrow> Counter" where
  "count_step char counter =
     (if char \<in> UPPERCASE then counter_incr counter ''uppercase''
      else if char \<in> LOWERCASE then counter_incr counter ''lowercase''
      else if char \<in> DIGITS then counter_incr counter ''digits''
      else counter_incr counter ''special'')"

definition count_characters :: "string \<Rightarrow> Counter" where
  "count_characters password =
     fold count_step password
       [''uppercase'' \<mapsto> 0, ''lowercase'' \<mapsto> 0, ''digits'' \<mapsto> 0, ''special'' \<mapsto> 0]"

text \<open>Python's \<open>str(n)\<close> for an integer, as \<open>'{}'.format(n)\<close> prints it.\<close>

fun str_nat :: "nat \<Rightarrow> string" where
  "str_nat n =
     (if n < 10 then [''0123456789'' ! n]
      else str_nat (n div 10) @ [''0123456789'' ! (n mod 10)])"

declare str_nat.simps [simp del]

definition str_int :: "int \<Rightarrow> string" where
  "str_int i = (if i < 0 then ''-'' @ str_nat (nat (- i)) else str_nat (nat i))"

text \<open>
  The object \<open>PasswordRules.__init__\<close> builds. Each class minimum and the length may be
  \<open>None\<close>. The field \<open>length\<close> is written \<open>length'\<close>.
\<close>

record PasswordRules =
  uppercase :: "int option"
  lowercase :: "int option"
  digits :: "int option"
  special :: "int option"
  length' :: "int option"

text \<open>The lambda \<open>a\<close> of the constructor: \<open>None\<close> counts as 0 in the sum.\<close>

definition a :: "int option \<Rightarrow> int" where
  "a x = (case x of None \<Rightarrow> 0 | Some n \<Rightarrow> n)"

text \<open>
  \<open>PasswordRules.__init__\<close>. The sum of the minimums is checked against the length only
  under the guard \<open>length is not None\<close>. A caller that omits \<open>length\<close> passes the
  default, \<open>Some 10\<close>.
\<close>

definition PasswordRules_init ::
  "int option \<Rightarrow> int option \<Rightarrow> int option \<Rightarrow> int option \<Rightarrow> int option
     \<Rightarrow> error + PasswordRules" where
  "PasswordRules_init uppercase_arg lowercase_arg digits_arg special_arg length_arg =
     (case length_arg of
        Some n \<Rightarrow>
          if a uppercase_arg + a lowercase_arg + a digits_arg + a special_arg > n
          then Inl (ValueError ''Length must be >= sum of requirements'')
          else Inr \<lparr>uppercase = uppercase_arg, lowercase = lowercase_arg,
                    digits = digits_arg, special = special_arg, length' = length_arg\<rparr>
      | None \<Rightarrow>
          Inr \<lparr>uppercase = uppercase_arg, lowercase = lowercase_arg,
                digits = digits_arg, special = special_arg, length' = length_arg\<rparr>)"

text \<open>
  \<open>PasswordRules.validate\<close>. The four class checks are guarded by \<open>is not None\<close>; the
  length check \<open>self.length > len(password)\<close> is not, and with \<open>self.length = None\<close> the
  comparison raises \<open>TypeError\<close> after the class checks have run.
\<close>

definition validate :: "PasswordRules \<Rightarrow> string \<Rightarrow> bool \<Rightarrow> error + string list" where
  "validate self password raise_error =
     (let char_count = count_characters password;
          errors = [];
          errors =
            (case uppercase self of
               Some n \<Rightarrow>
                 if n > counter_get char_count ''uppercase''
                 then errors @ [''Need at least '' @ str_int n @ '' uppercase character''
                                  @ (if n \<noteq> 1 then ''s'' else '''')]
                 else errors
             | None \<Rightarrow> errors);
          errors =
            (case lowercase self of
               Some n \<Rightarrow>
                 if n > counter_get char_count ''lowercase''
                 then errors @ [''Need at least '' @ str_int n @ '' lowercase character''
                                  @ (if n \<noteq> 1 then ''s'' else '''')]
                 else errors
             | None \<Rightarrow> errors);
          errors =
            (case digits self of
               Some n \<Rightarrow>
                 if n > counter_get char_count ''digits''
                 then errors @ [''Need at least '' @ str_int n @ '' digit''
                                  @ (if n \<noteq> 1 then ''s'' else '''')]
                 else errors
             | None \<Rightarrow> errors);
          errors =
            (case special self of
               Some n \<Rightarrow>
                 if n > counter_get char_count ''special''
                 then errors @ [''Need at least '' @ str_int n @ '' special character''
                                  @ (if n \<noteq> 1 then ''s'' else '''')]
                 else errors
             | None \<Rightarrow> errors)
      in case length' self of
           None \<Rightarrow> Inl TypeError
         | Some n \<Rightarrow>
             (let errors =
                    (if n > int (length password)
                     then errors @ [''Password must be at least '' @ str_int n @ '' characters'']
                     else errors)
              in if raise_error \<and> errors \<noteq> [] then Inl (ValidationError (hd errors))
                 else Inr errors))"

text \<open>
  What the specification says \<open>validate\<close> returns, for comparison with the code.
  A character is special when it is in none of the three sets; a class contributes its
  message when its minimum is set and exceeds the number of characters of the class.
\<close>

definition is_special :: "char \<Rightarrow> bool" where
  "is_special c = (c \<notin> UPPERCASE \<and> c \<notin> LOWERCASE \<and> c \<notin> DIGITS)"

definition class_deficiency :: "int option \<Rightarrow> int \<Rightarrow> string \<Rightarrow> string list" where
  "class_deficiency minimum observed noun =
     (case minimum of
        None \<Rightarrow> []
      | Some n \<Rightarrow>
          if observed < n
          then [''Need at least '' @ str_int n @ '' '' @ noun @ (if n = 1 then '''' else ''s'')]
          else [])"

definition expected_messages :: "PasswordRules \<Rightarrow> int \<Rightarrow> string \<Rightarrow> string list" where
  "expected_messages policy min_length password =
     class_deficiency (uppercase policy)
        (int (length (filter (\<lambda>c. c \<in> UPPERCASE) password))) ''uppercase character''
     @ class_deficiency (lowercase policy)
        (int (length (filter (\<lambda>c. c \<in> LOWERCASE) password))) ''lowercase character''
     @ class_deficiency (digits policy)
        (int (length (filter (\<lambda>c. c \<in> DIGITS) password))) ''digit''
     @ class_deficiency (special policy)
        (int (length (filter is_special password))) ''special character''
     @ (if int (length password) < min_length
        then [''Password must be at least '' @ str_int min_length @ '' characters'']
        else [])"

section \<open>Redirect targets (event\_app/utils.py)\<close>






section \<open>Stored credentials (event\_app/models.py)\<close>

text \<open>
  The columns of \<open>User\<close> that the password property reads and writes: \<open>salt\<close> and
  \<open>_password\<close> (written \<open>password_col\<close>). The hash type \<open>'h\<close> and the two functions
  of the bcrypt extension, \<open>generate_password_hash\<close> and \<open>check_password_hash\<close>, are
  parameters: the extension is not part of the repository. Hashing may raise.
\<close>

record 'h User =
  salt :: string
  password_col :: 'h

text \<open>The setter of \<open>User.password\<close>: no check of its own before the hash is taken.\<close>

definition password_setter ::
  "(string \<Rightarrow> error + 'h) \<Rightarrow> 'h User \<Rightarrow> string \<Rightarrow> error + 'h User" where
  "password_setter generate_password_hash self plain_password =
     (let salted_password = plain_password @ salt self
      in case generate_password_hash salted_password of
           Inl e \<Rightarrow> Inl e
         | Inr h \<Rightarrow> Inr (self\<lparr>password_col := h\<rparr>))"

definition check_password :: "('h \<Rightarrow> string \<Rightarrow> bool) \<Rightarrow> 'h User \<Rightarrow> string \<Rightarrow> bool" where
  "check_password check_password_hash self plain_password =
     (let salted_password = plain_password @ salt self
      in check_password_hash (password_col self) salted_password)"

text \<open>
  A stand-in for the hashing primitive, to instantiate the parameters at concrete
  inputs: it reads the first 72 characters of its input and ignores the rest, as a
  bcrypt implementation that truncates does, and it never raises.
\<close>

definition truncating_generate_password_hash :: "string \<Rightarrow> error + string" where
  "truncating_generate_password_hash password = Inr (take 72 password)"

definition truncating_check_password_hash :: "string \<Rightarrow> string \<Rightarrow> bool" where
  "truncating_check_password_hash pw_hash password = (pw_hash = take 72 password)"

text \<open>A user with a salt of the form \<open>uuid.uuid4().hex\<close> and no password yet.\<close>

definition example_user :: "string User" where
  "example_user = \<lparr>salt = ''0123456789abcdef0123456789abcdef'', password_col = []\<rparr>"

section \<open>Event identifiers (event\_app/models.py)\<close>

text \<open>
  \<open>string.ascii_letters\<close> (the lowercase letters followed by the uppercase ones) and
  \<open>string.digits\<close>, and the length of the column
  \<open>Event.id\<close>, declared as \<open>db.String(10)\<close>.
\<close>

definition ascii_lowercase :: string where
  "ascii_lowercase = ''abcdefghijklmnopqrstuvwxyz''"

definition ascii_uppercase :: string where
  "ascii_uppercase = ''ABCDEFGHIJKLMNOPQRSTUVWXYZ''"

definition ascii_letters :: string where
  "ascii_letters = ascii_lowercase @ ascii_uppercase"

definition string_digits :: string where
  "string_digits = ''0123456789''"

definition Event_id_length :: nat where
  "Event_id_length = 10"

text \<open>
  \<open>random.choice\<close> returns the element of the sequence at an index the generator
  picks. The generator is a sequence of raw draws \<open>draws\<close> read at a position;
  the raw draw is reduced to an index of the sequence. The only call passes the
  62 characters of the alphabet, never an empty sequence.
\<close>

definition random_choice :: "'a list \<Rightarrow> nat \<Rightarrow> 'a" where
  "random_choice seq raw = seq ! (raw mod length seq)"

text \<open>
  The candidate of one pass of the loop: \<open>Event_id_length\<close> characters, each chosen
  from \<open>string.ascii_letters + string.digits\<close>, read from position \<open>pos\<close> on.
\<close>

definition draw_id :: "(nat \<Rightarrow> nat) \<Rightarrow> nat \<Rightarrow> string" where
  "draw_id draws pos =
     map (\<lambda>x. random_choice (ascii_letters @ string_digits) (draws (pos + x)))
       [0..<Event_id_length]"

text \<open>
  \<open>Event.generate_id\<close>: a \<open>while True\<close> loop with a single exit, taken when
  \<open>Event.query.get\<close> finds no event under the candidate. The table of events is a map
  from identifiers to rows. The value \<open>None\<close> of the model stands for a loop that
  never exits.
\<close>

partial_function (option) generate_id ::
  "(string \<rightharpoonup> 'e) \<Rightarrow> (nat \<Rightarrow> nat) \<Rightarrow> nat \<Rightarrow> string option" where
  "generate_id events draws pos =
     (let temp_id = draw_id draws pos
      in if events temp_id = None then Some temp_id
         else generate_id events draws (pos + Event_id_length))"

text \<open>The candidate drawn in pass \<open>k\<close> of the loop, counting from 0.\<close>

definition candidate :: "(nat \<Rightarrow> nat) \<Rightarrow> nat \<Rightarrow> nat \<Rightarrow> string" where
  "candidate draws pos k = draw_id draws (pos + k * Event_id_length)"

text \<open>
  Tables of events and sequences of draws for the concrete runs below: a table in
  which only \<open>abcdefghij\<close> is taken, one in which every identifier is taken, and one
  in which only \<open>aaaaaaaaaa\<close> is;
  draws that are all 0, draws that count up, and draws that are 0 for the first
  thousand candidates and 1 afterwards.
\<close>

definition first_taken :: "string \<rightharpoonup> unit" where
  "first_taken temp_id = (if temp_id = ''abcdefghij'' then Some () else None)"

definition all_taken :: "string \<rightharpoonup> unit" where
  "all_taken temp_id = Some ()"

definition only_a_taken :: "string \<rightharpoonup> unit" where
  "only_a_taken temp_id = (if temp_id = ''aaaaaaaaaa'' then Some () else None)"

definition zero_draws :: "nat \<Rightarrow> nat" where
  "zero_draws i = 0"

definition counting_draws :: "nat \<Rightarrow> nat" where
  "counting_draws i = i"

definition late_draws :: "nat \<Rightarrow> nat" where
  "late_draws i = (if i < 10000 then 0 else 1)"

section \<open>Properties of the password rules\<close>

subsection \<open>Counting characters\<close>

text \<open>The three named classes are pairwise disjoint, so the \<open>if\<close> chain of the loop
  body puts a character in the class it belongs to.\<close>

lemma upper_not_lower: "c \<in> UPPERCASE \<Longrightarrow> c \<notin> LOWERCASE"
  by (auto simp: UPPERCASE_def LOWERCASE_def)

lemma upper_not_digit: "c \<in> UPPERCASE \<Longrightarrow> c \<notin> DIGITS"
  by (auto simp: UPPERCASE_def DIGITS_def)

lemma lower_not_digit: "c \<in> LOWERCASE \<Longrightarrow> c \<notin> DIGITS"
  by (auto simp: LOWERCASE_def DIGITS_def)

lemma counter_get_incr:
  "counter_get (counter_incr c k) k' = (if k' = k then counter_get c k + 1 else counter_get c k')"
  by (simp add: counter_get_def counter_incr_def)

lemma fold_count_uppercase:
  "counter_get (fold count_step password c) ''uppercase'' =
     counter_get c ''uppercase'' + int (length (filter (\<lambda>x. x \<in> UPPERCASE) password))"
  by (induction password arbitrary: c) (simp_all add: count_step_def counter_get_incr)

lemma fold_count_lowercase:
  "counter_get (fold count_step password c) ''lowercase'' =
     counter_get c ''lowercase'' + int (length (filter (\<lambda>x. x \<in> LOWERCASE) password))"
  by (induction password arbitrary: c) (simp_all add: count_step_def counter_get_incr upper_not_lower)

lemma fold_count_digits:
  "counter_get (fold count_step password c) ''digits'' =
     counter_get c ''digits'' + int (length (filter (\<lambda>x. x \<in> DIGITS) password))"
  by (induction password arbitrary: c)
     (simp_all add: count_step_def counter_get_incr upper_not_digit lower_not_digit)

lemma fold_count_special:
  "counter_get (fold count_step password c) ''special'' =
     counter_get c ''special'' + int (length (filter is_special password))"
  by (induction password arbitrary: c)
     (simp_all add: count_step_def counter_get_incr is_special_def)

lemma fold_count_sum:
  "counter_get (fold count_step password c) ''uppercase''
     + counter_get (fold count_step password c) ''lowercase''
     + counter_get (fold count_step password c) ''digits''
     + counter_get (fold count_step password c) ''special'' =
   counter_get c ''uppercase'' + counter_get c ''lowercase'' + counter_get c ''digits''
     + counter_get c ''special'' + int (length password)"
  by (induction password arbitrary: c) (simp_all add: count_step_def counter_get_incr)

lemma counter_get_initial:
  "counter_get [''uppercase'' \<mapsto> 0, ''lowercase'' \<mapsto> 0, ''digits'' \<mapsto> 0, ''special'' \<mapsto> 0] k = 0"
  by (simp add: counter_get_def)

lemma count_characters_classes:
  "counter_get (count_characters password) ''uppercase''
       = int (length (filter (\<lambda>c. c \<in> UPPERCASE) password))"
  "counter_get (count_characters password) ''lowercase''
       = int (length (filter (\<lambda>c. c \<in> LOWERCASE) password))"
  "counter_get (count_characters password) ''digits''
       = int (length (filter (\<lambda>c. c \<in> DIGITS) password))"
  "counter_get (count_characters password) ''special''
       = int (length (filter is_special password))"
  unfolding count_characters_def
  by (simp_all add: fold_count_uppercase fold_count_lowercase fold_count_digits
        fold_count_special counter_get_initial)

text \<open>
  Claim C8. For every password, \<open>count_characters\<close> counts under \<open>uppercase\<close> the
  characters of \<open>UPPERCASE\<close>, under \<open>lowercase\<close> those of \<open>LOWERCASE\<close>, under
  \<open>digits\<close> those of \<open>DIGITS\<close> and under \<open>special\<close> every other character; the four
  counts add up to the length of the password, and the empty password gives four zeros.
\<close>

theorem count_characters_partition:
  "counter_get (count_characters password) ''uppercase''
     = int (length (filter (\<lambda>c. c \<in> UPPERCASE) password))
   \<and> counter_get (count_characters password) ''lowercase''
     = int (length (filter (\<lambda>c. c \<in> LOWERCASE) password))
   \<and> counter_get (count_characters password) ''digits''
     = int (length (filter (\<lambda>c. c \<in> DIGITS) password))
   \<and> counter_get (count_characters password) ''special''
     = int (length (filter is_special password))
   \<and> counter_get (count_characters password) ''uppercase''
     + counter_get (count_characters password) ''lowercase''
     + counter_get (count_characters password) ''digits''
     + counter_get (count_characters password) ''special'' = int (length password)
   \<and> count_characters [] = [''uppercase'' \<mapsto> 0, ''lowercase'' \<mapsto> 0, ''digits'' \<mapsto> 0, ''special'' \<mapsto> 0]"
proof -
  have total: "counter_get (count_characters password) ''uppercase''
     + counter_get (count_characters password) ''lowercase''
     + counter_get (count_characters password) ''digits''
     + counter_get (count_characters password) ''special'' = int (length password)"
    unfolding count_characters_def by (simp only: fold_count_sum counter_get_initial)
  have empty: "count_characters [] =
      [''uppercase'' \<mapsto> 0, ''lowercase'' \<mapsto> 0, ''digits'' \<mapsto> 0, ''special'' \<mapsto> 0]"
    by (simp add: count_characters_def)
  from count_characters_classes [of password] total empty show ?thesis by blast
qed

subsection \<open>Validation\<close>

text \<open>With an integer length, \<open>validate\<close> returns the list the specification describes.\<close>

lemma validate_int_length:
  assumes "length' policy = Some n"
  shows "validate policy password False = Inr (expected_messages policy n password)"
  using assms
  by (simp add: validate_def expected_messages_def class_deficiency_def Let_def
        count_characters_classes split: option.splits)

text \<open>With the length \<open>None\<close>, the comparison with \<open>len(password)\<close> raises.\<close>

lemma validate_None_length:
  "length' policy = None \<Longrightarrow> validate policy password raise_error = Inl TypeError"
  by (simp add: validate_def Let_def)

text \<open>A class minimum that is zero or negative behaves as an unset one: no count is
  below it.\<close>

lemma validate_nonpositive_uppercase:
  "m \<le> 0 \<Longrightarrow> validate (policy\<lparr>uppercase := Some m\<rparr>) password raise_error
     = validate (policy\<lparr>uppercase := None\<rparr>) password raise_error"
  by (simp add: validate_def Let_def count_characters_classes)

lemma validate_nonpositive_lowercase:
  "m \<le> 0 \<Longrightarrow> validate (policy\<lparr>lowercase := Some m\<rparr>) password raise_error
     = validate (policy\<lparr>lowercase := None\<rparr>) password raise_error"
  by (simp add: validate_def Let_def count_characters_classes)

lemma validate_nonpositive_digits:
  "m \<le> 0 \<Longrightarrow> validate (policy\<lparr>digits := Some m\<rparr>) password raise_error
     = validate (policy\<lparr>digits := None\<rparr>) password raise_error"
  by (simp add: validate_def Let_def count_characters_classes)

lemma validate_nonpositive_special:
  "m \<le> 0 \<Longrightarrow> validate (policy\<lparr>special := Some m\<rparr>) password raise_error
     = validate (policy\<lparr>special := None\<rparr>) password raise_error"
  by (simp add: validate_def Let_def count_characters_classes)

text \<open>
  Claim C2, as amended. For every password and every policy whose length is an integer
  \<open>n\<close>, \<open>validate\<close> returns the deficiency messages in the order uppercase,
  lowercase, digit, special, length. A class message is present exactly when the
  minimum of the class is set and greater than the number of characters of the class;
  it reads \<open>Need at least N uppercase character\<close>, \<open>Need at least N lowercase character\<close>,
  \<open>Need at least N digit\<close> or \<open>Need at least N special character\<close>, followed by an
  \<open>s\<close> unless \<open>N = 1\<close>. The message \<open>Password must be at least n characters\<close> is
  present exactly when the password is shorter than \<open>n\<close>.
\<close>

theorem validate_messages_in_order:
  assumes "length' policy = Some n"
  shows "validate policy password False = Inr (expected_messages policy n password)"
  using assms by (rule validate_int_length)

text \<open>The example of the specification: the password \<open>ab\<close> under one uppercase
  character, one digit and length 10.\<close>

theorem validate_messages_in_order_witness:
  "length' \<lparr>uppercase = Some 1, lowercase = None, digits = Some 1, special = None,
            length' = Some 10\<rparr> = Some 10
   \<and> validate \<lparr>uppercase = Some 1, lowercase = None, digits = Some 1, special = None,
                length' = Some 10\<rparr> ''ab'' False
     = Inr [''Need at least 1 uppercase character'', ''Need at least 1 digit'',
            ''Password must be at least 10 characters'']"
  using validate_messages_in_order [where policy = "\<lparr>uppercase = Some 1, lowercase = None,
      digits = Some 1, special = None, length' = Some 10\<rparr>" and n = 10 and password = "''ab''"]
  by (simp add: expected_messages_def class_deficiency_def UPPERCASE_def LOWERCASE_def
        DIGITS_def is_special_def str_int_def str_nat.simps)

text \<open>
  Claim C2 as stated fails on two constructed policies: with the length \<open>None\<close>
  \<open>validate\<close> raises \<open>TypeError\<close> and returns no list, and the message of the digit
  class has no word \<open>character\<close> in it.
\<close>

theorem validate_messages_counterexample:
  "PasswordRules_init (Some 1) None None None None
      = Inr \<lparr>uppercase = Some 1, lowercase = None, digits = None, special = None,
              length' = None\<rparr>
   \<and> validate \<lparr>uppercase = Some 1, lowercase = None, digits = None, special = None,
                length' = None\<rparr> ''ab'' False = Inl TypeError
   \<and> PasswordRules_init None None (Some 2) None (Some 10)
      = Inr \<lparr>uppercase = None, lowercase = None, digits = Some 2, special = None,
              length' = Some 10\<rparr>
   \<and> validate \<lparr>uppercase = None, lowercase = None, digits = Some 2, special = None,
                length' = Some 10\<rparr> ''ab'' False
      = Inr [''Need at least 2 digits'', ''Password must be at least 10 characters'']"
  by (simp add: PasswordRules_init_def a_def validate_def Let_def count_characters_classes
        DIGITS_def str_int_def str_nat.simps)

subsection \<open>Construction\<close>

text \<open>
  Claim C3, as amended. The constructor raises exactly when the length is an integer
  and the sum of the minimums, \<open>None\<close> counting as 0, is greater than it; what it
  raises is the \<open>ValueError\<close> of the source, and otherwise it returns the policy with
  the five values as given. With the length \<open>None\<close> the sum is not checked and every
  combination of minimums is accepted. The length 0 is an integer like any other.
  Minimums 5 and 5 with length 8 are refused.
\<close>

theorem PasswordRules_init_raises_iff:
  "((\<exists>e. PasswordRules_init u l d s len = Inl e)
      \<longleftrightarrow> (\<exists>n. len = Some n \<and> a u + a l + a d + a s > n))
   \<and> ((\<exists>e. PasswordRules_init u l d s len = Inl e)
      \<longleftrightarrow> PasswordRules_init u l d s len
            = Inl (ValueError ''Length must be >= sum of requirements''))
   \<and> ((\<nexists>e. PasswordRules_init u l d s len = Inl e)
      \<longleftrightarrow> PasswordRules_init u l d s len
            = Inr \<lparr>uppercase = u, lowercase = l, digits = d, special = s, length' = len\<rparr>)
   \<and> PasswordRules_init u l d s None
        = Inr \<lparr>uppercase = u, lowercase = l, digits = d, special = s, length' = None\<rparr>
   \<and> PasswordRules_init (Some 5) None (Some 5) None (Some 8)
        = Inl (ValueError ''Length must be >= sum of requirements'')"
  by (auto simp add: PasswordRules_init_def a_def split: option.splits)

text \<open>
  Claim C3 as stated fails at length 0: the sum is checked there, and one required
  uppercase character is refused.
\<close>

theorem PasswordRules_init_zero_length_counterexample:
  "PasswordRules_init (Some 1) None None None (Some 0)
     = Inl (ValueError ''Length must be >= sum of requirements'')"
  by (simp add: PasswordRules_init_def a_def)

subsection \<open>The policy without minimums\<close>

text \<open>
  Claim C9. With the four minimums unset, both the length 0 and the length \<open>None\<close>
  are accepted by the constructor. With length 0, \<open>validate\<close> returns the empty list
  for every password. With length \<open>None\<close> it returns no list for any password: the
  unguarded comparison \<open>self.length > len(password)\<close> raises \<open>TypeError\<close>.
\<close>

theorem validate_unset_policy:
  "PasswordRules_init None None None None (Some 0)
     = Inr \<lparr>uppercase = None, lowercase = None, digits = None, special = None,
             length' = Some 0\<rparr>
   \<and> validate \<lparr>uppercase = None, lowercase = None, digits = None, special = None,
                length' = Some 0\<rparr> password False = Inr []
   \<and> PasswordRules_init None None None None None
     = Inr \<lparr>uppercase = None, lowercase = None, digits = None, special = None,
             length' = None\<rparr>
   \<and> validate \<lparr>uppercase = None, lowercase = None, digits = None, special = None,
                length' = None\<rparr> password False = Inl TypeError"
  by (simp add: PasswordRules_init_def a_def validate_def Let_def)

subsection \<open>Minimums that are zero or negative\<close>

text \<open>
  Claim C10. The constructor looks at the sum of the minimums only, whatever the sign
  of each: with any values in the four slots it accepts exactly when the length is
  \<open>None\<close> or the sum does not exceed it. So a zero or negative minimum \<open>m\<close> in any
  slot never turns an accepted policy into a refused one, and a policy with \<open>m\<close> as
  its only minimum and a length that is not negative is accepted. For every password,
  \<open>validate\<close> with the minimum \<open>m\<close> for a class does what it does with that class
  unset, so it has no message for the class.
\<close>

theorem nonpositive_minimum_accepted_and_silent:
  assumes "m \<le> 0"
  shows "(PasswordRules_init u l d s len
            = Inr \<lparr>uppercase = u, lowercase = l, digits = d, special = s, length' = len\<rparr>
          \<longleftrightarrow> (case len of None \<Rightarrow> True | Some n \<Rightarrow> a u + a l + a d + a s \<le> n))
       \<and> ((\<exists>p. PasswordRules_init None l d s len = Inr p)
            \<longrightarrow> PasswordRules_init (Some m) l d s len
              = Inr \<lparr>uppercase = Some m, lowercase = l, digits = d, special = s,
                      length' = len\<rparr>)
       \<and> ((\<exists>p. PasswordRules_init u None d s len = Inr p)
            \<longrightarrow> PasswordRules_init u (Some m) d s len
              = Inr \<lparr>uppercase = u, lowercase = Some m, digits = d, special = s,
                      length' = len\<rparr>)
       \<and> ((\<exists>p. PasswordRules_init u l None s len = Inr p)
            \<longrightarrow> PasswordRules_init u l (Some m) s len
              = Inr \<lparr>uppercase = u, lowercase = l, digits = Some m, special = s,
                      length' = len\<rparr>)
       \<and> ((\<exists>p. PasswordRules_init u l d None len = Inr p)
            \<longrightarrow> PasswordRules_init u l d (Some m) len
              = Inr \<lparr>uppercase = u, lowercase = l, digits = d, special = Some m,
                      length' = len\<rparr>)
       \<and> (0 \<le> n \<longrightarrow>
            PasswordRules_init (Some m) None None None (Some n)
              = Inr \<lparr>uppercase = Some m, lowercase = None, digits = None, special = None,
                      length' = Some n\<rparr>
          \<and> PasswordRules_init None (Some m) None None (Some n)
              = Inr \<lparr>uppercase = None, lowercase = Some m, digits = None, special = None,
                      length' = Some n\<rparr>
          \<and> PasswordRules_init None None (Some m) None (Some n)
              = Inr \<lparr>uppercase = None, lowercase = None, digits = Some m, special = None,
                      length' = Some n\<rparr>
          \<and> PasswordRules_init None None None (Some m) (Some n)
              = Inr \<lparr>uppercase = None, lowercase = None, digits = None, special = Some m,
                      length' = Some n\<rparr>)
       \<and> validate (policy\<lparr>uppercase := Some m\<rparr>) password raise_error
           = validate (policy\<lparr>uppercase := None\<rparr>) password raise_error
       \<and> validate (policy\<lparr>lowercase := Some m\<rparr>) password raise_error
           = validate (policy\<lparr>lowercase := None\<rparr>) password raise_error
       \<and> validate (policy\<lparr>digits := Some m\<rparr>) password raise_error
           = validate (policy\<lparr>digits := None\<rparr>) password raise_error
       \<and> validate (policy\<lparr>special := Some m\<rparr>) password raise_error
           = validate (policy\<lparr>special := None\<rparr>) password raise_error"
proof -
  have sum_only: "PasswordRules_init u l d s len
            = Inr \<lparr>uppercase = u, lowercase = l, digits = d, special = s, length' = len\<rparr>
          \<longleftrightarrow> (case len of None \<Rightarrow> True | Some n \<Rightarrow> a u + a l + a d + a s \<le> n)"
    by (cases len) (simp_all add: PasswordRules_init_def)
  have up: "(\<exists>p. PasswordRules_init None l d s len = Inr p)
            \<longrightarrow> PasswordRules_init (Some m) l d s len
              = Inr \<lparr>uppercase = Some m, lowercase = l, digits = d, special = s,
                      length' = len\<rparr>"
    using assms by (cases len) (auto simp add: PasswordRules_init_def a_def split: if_splits)
  have lo: "(\<exists>p. PasswordRules_init u None d s len = Inr p)
            \<longrightarrow> PasswordRules_init u (Some m) d s len
              = Inr \<lparr>uppercase = u, lowercase = Some m, digits = d, special = s,
                      length' = len\<rparr>"
    using assms by (cases len) (auto simp add: PasswordRules_init_def a_def split: if_splits)
  have di: "(\<exists>p. PasswordRules_init u l None s len = Inr p)
            \<longrightarrow> PasswordRules_init u l (Some m) s len
              = Inr \<lparr>uppercase = u, lowercase = l, digits = Some m, special = s,
                      length' = len\<rparr>"
    using assms by (cases len) (auto simp add: PasswordRules_init_def a_def split: if_splits)
  have sp: "(\<exists>p. PasswordRules_init u l d None len = Inr p)
            \<longrightarrow> PasswordRules_init u l d (Some m) len
              = Inr \<lparr>uppercase = u, lowercase = l, digits = d, special = Some m,
                      length' = len\<rparr>"
    using assms by (cases len) (auto simp add: PasswordRules_init_def a_def split: if_splits)
  have alone: "0 \<le> n \<longrightarrow>
            PasswordRules_init (Some m) None None None (Some n)
              = Inr \<lparr>uppercase = Some m, lowercase = None, digits = None, special = None,
                      length' = Some n\<rparr>
          \<and> PasswordRules_init None (Some m) None None (Some n)
              = Inr \<lparr>uppercase = None, lowercase = Some m, digits = None, special = None,
                      length' = Some n\<rparr>
          \<and> PasswordRules_init None None (Some m) None (Some n)
              = Inr \<lparr>uppercase = None, lowercase = None, digits = Some m, special = None,
                      length' = Some n\<rparr>
          \<and> PasswordRules_init None None None (Some m) (Some n)
              = Inr \<lparr>uppercase = None, lowercase = None, digits = None, special = Some m,
                      length' = Some n\<rparr>"
    using assms by (simp add: PasswordRules_init_def a_def)
  have silent: "validate (policy\<lparr>uppercase := Some m\<rparr>) password raise_error
           = validate (policy\<lparr>uppercase := None\<rparr>) password raise_error
       \<and> validate (policy\<lparr>lowercase := Some m\<rparr>) password raise_error
           = validate (policy\<lparr>lowercase := None\<rparr>) password raise_error
       \<and> validate (policy\<lparr>digits := Some m\<rparr>) password raise_error
           = validate (policy\<lparr>digits := None\<rparr>) password raise_error
       \<and> validate (policy\<lparr>special := Some m\<rparr>) password raise_error
           = validate (policy\<lparr>special := None\<rparr>) password raise_error"
    using assms
    by (simp only: validate_nonpositive_uppercase validate_nonpositive_lowercase
          validate_nonpositive_digits validate_nonpositive_special simp_thms)
  from sum_only up lo di sp alone silent show ?thesis
    by blast
qed

text \<open>
  At \<open>m = -3\<close> in the lowercase slot, beside five uppercase characters: the policy is
  built, and \<open>validate\<close> has no message for the lowercase class.
\<close>

theorem nonpositive_minimum_accepted_and_silent_witness:
  "(-3::int) \<le> 0
   \<and> PasswordRules_init (Some 5) (Some (-3)) None None (Some 10)
       = Inr \<lparr>uppercase = Some 5, lowercase = Some (-3), digits = None, special = None,
               length' = Some 10\<rparr>
   \<and> PasswordRules_init None None None (Some (-3)) (Some 10)
       = Inr \<lparr>uppercase = None, lowercase = None, digits = None, special = Some (-3),
               length' = Some 10\<rparr>
   \<and> validate \<lparr>uppercase = Some 5, lowercase = Some (-3), digits = None, special = None,
                length' = Some 10\<rparr> ''ab'' False
       = Inr [''Need at least 5 uppercase characters'',
              ''Password must be at least 10 characters'']"
  using nonpositive_minimum_accepted_and_silent [where m = "-3" and len = "Some 10"
      and u = "Some 5" and l = "Some (-3)" and d = None and s = None and n = 10
      and policy = "\<lparr>uppercase = Some 5, lowercase = None, digits = None, special = None,
        length' = Some 10\<rparr>" and password = "''ab''" and raise_error = False]
  by (simp add: a_def validate_def Let_def count_characters_classes UPPERCASE_def
        str_int_def str_nat.simps)

section \<open>Properties of the event identifiers\<close>

text \<open>A candidate has the length of the column and is drawn from the alphabet.\<close>

lemma length_draw_id: "length (draw_id draws pos) = Event_id_length"
  by (simp add: draw_id_def)

lemma alphabet_classes:
  "set (ascii_letters @ string_digits) = LOWERCASE \<union> UPPERCASE \<union> DIGITS"
  by (simp only: ascii_letters_def ascii_lowercase_def ascii_uppercase_def string_digits_def
        UPPERCASE_def LOWERCASE_def DIGITS_def set_append)

lemma random_choice_mem: "seq \<noteq> [] \<Longrightarrow> random_choice seq raw \<in> set seq"
  by (simp add: random_choice_def)

lemma set_draw_id: "set (draw_id draws pos) \<subseteq> UPPERCASE \<union> LOWERCASE \<union> DIGITS"
proof -
  have "ascii_letters @ string_digits \<noteq> []"
    by (simp add: string_digits_def)
  then have "random_choice (ascii_letters @ string_digits) raw
      \<in> set (ascii_letters @ string_digits)" for raw
    by (rule random_choice_mem)
  then have "random_choice (ascii_letters @ string_digits) raw
      \<in> UPPERCASE \<union> LOWERCASE \<union> DIGITS" for raw
    by (simp only: alphabet_classes Un_iff) blast
  then show ?thesis
    unfolding draw_id_def by (simp only: set_map image_subset_iff) blast
qed

text \<open>
  What the loop returns, in terms of the candidates of its passes: if it returns, it
  returns the first candidate that is not in the table; if there is such a candidate,
  it returns; if there is none, it does not return.
\<close>

lemma candidate_0: "candidate draws pos 0 = draw_id draws pos"
  by (simp add: candidate_def)

lemma candidate_Suc:
  "candidate draws pos (Suc k) = candidate draws (pos + Event_id_length) k"
  by (simp add: candidate_def add.assoc)

lemma generate_id_Some:
  assumes "generate_id events draws pos = Some t"
  shows "\<exists>k. t = candidate draws pos k \<and> events t = None
         \<and> (\<forall>j<k. events (candidate draws pos j) \<noteq> None)"
proof (rule generate_id.raw_induct
    [where P = "\<lambda>events draws pos t. \<exists>k. t = candidate draws pos k \<and> events t = None
         \<and> (\<forall>j<k. events (candidate draws pos j) \<noteq> None)", OF _ assms])
  fix f :: "(string \<rightharpoonup> 'a) \<Rightarrow> (nat \<Rightarrow> nat) \<Rightarrow> nat \<Rightarrow> string option"
  fix events draws pos t
  assume IH: "\<And>events draws pos t. f events draws pos = Some t \<Longrightarrow>
      \<exists>k. t = candidate draws pos k \<and> events t = None
         \<and> (\<forall>j<k. events (candidate draws pos j) \<noteq> None)"
    and step: "(let temp_id = draw_id draws pos
         in if events temp_id = None then Some temp_id
            else f events draws (pos + Event_id_length)) = Some t"
  show "\<exists>k. t = candidate draws pos k \<and> events t = None
         \<and> (\<forall>j<k. events (candidate draws pos j) \<noteq> None)"
  proof (cases "events (draw_id draws pos) = None")
    case True
    with step have "t = candidate draws pos 0" "events t = None"
      by (simp_all add: candidate_0 Let_def)
    then show ?thesis by blast
  next
    case False
    with step have "f events draws (pos + Event_id_length) = Some t"
      by (simp add: Let_def)
    from IH [OF this] obtain k where k:
      "t = candidate draws (pos + Event_id_length) k" "events t = None"
      "\<forall>j<k. events (candidate draws (pos + Event_id_length) j) \<noteq> None"
      by blast
    have "events (candidate draws pos j) \<noteq> None" if "j < Suc k" for j
    proof (cases j)
      case 0
      with False show ?thesis by (simp add: candidate_0)
    next
      case (Suc i)
      with that k(3) show ?thesis by (simp add: candidate_Suc)
    qed
    moreover from k(1) have "t = candidate draws pos (Suc k)"
      by (simp add: candidate_Suc)
    ultimately show ?thesis using k(2) by blast
  qed
qed

lemma generate_id_first_free:
  "events (candidate draws pos k) = None \<Longrightarrow>
   (\<forall>j<k. events (candidate draws pos j) \<noteq> None) \<Longrightarrow>
   generate_id events draws pos = Some (candidate draws pos k)"
proof (induction k arbitrary: pos)
  case 0
  then show ?case
    by (subst generate_id.simps) (simp add: candidate_0 Let_def)
next
  case (Suc k)
  have "events (candidate draws pos 0) \<noteq> None"
    using Suc.prems(2) by blast
  then have taken: "events (draw_id draws pos) \<noteq> None"
    by (simp add: candidate_0)
  have "generate_id events draws (pos + Event_id_length)
          = Some (candidate draws (pos + Event_id_length) k)"
  proof (rule Suc.IH)
    show "events (candidate draws (pos + Event_id_length) k) = None"
      using Suc.prems(1) by (simp add: candidate_Suc)
    show "\<forall>j<k. events (candidate draws (pos + Event_id_length) j) \<noteq> None"
    proof (intro allI impI)
      fix j assume "j < k"
      then have "events (candidate draws pos (Suc j)) \<noteq> None"
        using Suc.prems(2) by simp
      then show "events (candidate draws (pos + Event_id_length) j) \<noteq> None"
        by (simp add: candidate_Suc)
    qed
  qed
  moreover from taken obtain row where "events (draw_id draws pos) = Some row"
    by blast
  ultimately show ?case
    by (subst generate_id.simps) (simp add: candidate_Suc Let_def)
qed

lemma generate_id_all_taken:
  assumes "\<forall>k. events (candidate draws pos k) \<noteq> None"
  shows "generate_id events draws pos = None"
proof (cases "generate_id events draws pos")
  case None
  then show ?thesis .
next
  case (Some t)
  from generate_id_Some [OF this] assms show ?thesis by blast
qed

text \<open>
  Claim C4. Whenever \<open>generate_id\<close> returns, the identifier has the length of the
  column \<open>Event.id\<close>, which is 10, each of its characters is an ASCII letter or a
  digit, and \<open>Event.query.get\<close> found no event under it.
\<close>

theorem generate_id_returns_fresh_alphanumeric:
  assumes "generate_id events draws pos = Some temp_id"
  shows "length temp_id = Event_id_length \<and> Event_id_length = 10
         \<and> set temp_id \<subseteq> UPPERCASE \<union> LOWERCASE \<union> DIGITS
         \<and> events temp_id = None"
proof -
  from generate_id_Some [OF assms] obtain k where
    k: "temp_id = candidate draws pos k" and free: "events temp_id = None" by blast
  from k have len: "length temp_id = Event_id_length"
    by (simp add: candidate_def length_draw_id)
  from k have "set temp_id \<subseteq> UPPERCASE \<union> LOWERCASE \<union> DIGITS"
    by (simp only: candidate_def set_draw_id)
  with len free show ?thesis
    by (simp only: Event_id_length_def simp_thms)
qed

text \<open>
  A run with a collision: the draws 0, 1, 2, ... give \<open>abcdefghij\<close> in the first pass,
  which is taken, and \<open>klmnopqrst\<close> in the second, which is not.
\<close>

lemma candidate_counting_draws:
  "candidate counting_draws 0 0 = ''abcdefghij''"
  "candidate counting_draws 0 1 = ''klmnopqrst''"
  by (simp_all add: candidate_def draw_id_def random_choice_def ascii_letters_def
        ascii_lowercase_def ascii_uppercase_def string_digits_def Event_id_length_def
        counting_draws_def upt_rec)

theorem generate_id_returns_fresh_alphanumeric_witness:
  "first_taken (candidate counting_draws 0 0) = Some ()
   \<and> generate_id first_taken counting_draws 0 = Some ''klmnopqrst''
   \<and> length ''klmnopqrst'' = Event_id_length \<and> Event_id_length = 10
   \<and> set ''klmnopqrst'' \<subseteq> UPPERCASE \<union> LOWERCASE \<union> DIGITS
   \<and> first_taken ''klmnopqrst'' = None"
proof -
  have collision: "first_taken (candidate counting_draws 0 0) = Some ()"
    by (simp add: candidate_counting_draws first_taken_def)
  have free: "first_taken (candidate counting_draws 0 1) = None"
    by (simp only: candidate_counting_draws first_taken_def) simp
  have "\<forall>j<1. first_taken (candidate counting_draws 0 j) \<noteq> None"
    using collision by simp
  with free have "generate_id first_taken counting_draws 0
      = Some (candidate counting_draws 0 1)"
    by (rule generate_id_first_free)
  then have returns: "generate_id first_taken counting_draws 0 = Some ''klmnopqrst''"
    by (simp only: candidate_counting_draws)
  from generate_id_returns_fresh_alphanumeric [OF returns] returns collision
  show ?thesis by simp
qed

text \<open>
  Claim C5, as amended. \<open>generate_id\<close> has no retry ceiling and raises nothing. It
  returns the candidate of pass \<open>k\<close>, however large \<open>k\<close> is, when that candidate is
  the first one that is not in the table; when every candidate is in the table it
  never returns.
\<close>

theorem generate_id_no_retry_ceiling:
  "(events (candidate draws pos k) = None \<longrightarrow>
      (\<forall>j<k. events (candidate draws pos j) \<noteq> None) \<longrightarrow>
      generate_id events draws pos = Some (candidate draws pos k))
   \<and> ((\<forall>k. events (candidate draws pos k) \<noteq> None) \<longrightarrow>
      generate_id events draws pos = None)"
proof (intro conjI impI)
  assume "events (candidate draws pos k) = None"
    and "\<forall>j<k. events (candidate draws pos j) \<noteq> None"
  then show "generate_id events draws pos = Some (candidate draws pos k)"
    by (rule generate_id_first_free)
next
  assume "\<forall>k. events (candidate draws pos k) \<noteq> None"
  then show "generate_id events draws pos = None"
    by (rule generate_id_all_taken)
qed

lemma candidate_zero_draws: "candidate zero_draws 0 k = ''aaaaaaaaaa''"
  by (simp add: candidate_def draw_id_def random_choice_def ascii_letters_def
        ascii_lowercase_def ascii_uppercase_def string_digits_def Event_id_length_def
        zero_draws_def upt_rec)

text \<open>
  Claim C5 as stated fails: with every identifier taken the loop does not end, and no
  exception ends it.
\<close>

theorem generate_id_loops_counterexample:
  "generate_id all_taken zero_draws 0 = None"
  by (rule generate_id_all_taken) (simp add: all_taken_def)


lemma candidate_late_draws:
  "candidate late_draws 0 k = (if k < 1000 then ''aaaaaaaaaa'' else ''bbbbbbbbbb'')"
  by (simp add: candidate_def draw_id_def random_choice_def ascii_letters_def
        ascii_lowercase_def ascii_uppercase_def string_digits_def Event_id_length_def
        late_draws_def upt_rec)

text \<open>
  With the first thousand candidates taken, the loop goes on and returns the next one;
  with all of them taken, it does not return.
\<close>

theorem generate_id_no_retry_ceiling_witness:
  "only_a_taken (candidate late_draws 0 999) = Some ()
   \<and> only_a_taken (candidate late_draws 0 1000) = None
   \<and> generate_id only_a_taken late_draws 0 = Some ''bbbbbbbbbb''
   \<and> generate_id all_taken zero_draws 0 = None"
  using generate_id_no_retry_ceiling [where events = only_a_taken and draws = late_draws
      and pos = 0 and k = 1000]
    generate_id_no_retry_ceiling [where events = all_taken and draws = zero_draws
      and pos = 0]
  by (simp add: candidate_late_draws only_a_taken_def all_taken_def)

section \<open>Properties of the redirect check\<close>




section \<open>Properties of the stored credentials\<close>

text \<open>
  Claim C6. Let the bcrypt extension verify every hash it produces against the input
  it was produced from. Then, for every plaintext and every salt, once the setter has
  stored the hash of plaintext + salt, \<open>check_password\<close> accepts the same plaintext;
  the setter leaves the salt as it was and hashes the plaintext followed by the salt.
\<close>

theorem check_password_after_setter:
  assumes "\<forall>salted h. generate_password_hash salted = Inr h \<longrightarrow> check_password_hash h salted"
    and "password_setter generate_password_hash user plain_password = Inr user'"
  shows "check_password check_password_hash user' plain_password
         \<and> salt user' = salt user
         \<and> generate_password_hash (plain_password @ salt user) = Inr (password_col user')"
  using assms
  by (auto simp add: password_setter_def check_password_def Let_def split: sum.splits)

text \<open>The plaintext \<open>hunter2\<close> for the example user.\<close>

theorem check_password_after_setter_witness:
  "password_setter truncating_generate_password_hash example_user ''hunter2''
       = Inr (example_user\<lparr>password_col := ''hunter20123456789abcdef0123456789abcdef''\<rparr>)
   \<and> check_password truncating_check_password_hash
        (example_user\<lparr>password_col := ''hunter20123456789abcdef0123456789abcdef''\<rparr>)
        ''hunter2''"
proof -
  have contract: "\<forall>salted h. truncating_generate_password_hash salted = Inr h
        \<longrightarrow> truncating_check_password_hash h salted"
    by (simp add: truncating_generate_password_hash_def truncating_check_password_hash_def)
  have stored: "password_setter truncating_generate_password_hash example_user ''hunter2''
       = Inr (example_user\<lparr>password_col := ''hunter20123456789abcdef0123456789abcdef''\<rparr>)"
    by (simp add: password_setter_def truncating_generate_password_hash_def example_user_def)
  from check_password_after_setter [OF contract stored] stored show ?thesis
    by simp
qed

text \<open>
  Claim C7, as amended. The setter checks no length and shortens nothing: it hands
  the whole of plaintext + salt to the hashing primitive, raises exactly what the
  primitive raises on that input, and otherwise stores the hash the primitive returns.
\<close>

theorem password_setter_hashes_whole_input:
  "(password_setter generate_password_hash user plain_password = Inl e
      \<longleftrightarrow> generate_password_hash (plain_password @ salt user) = Inl e)
   \<and> (password_setter generate_password_hash user plain_password = Inr user'
      \<longleftrightarrow> (\<exists>h. generate_password_hash (plain_password @ salt user) = Inr h
              \<and> user' = user\<lparr>password_col := h\<rparr>))"
  by (auto simp add: password_setter_def Let_def split: sum.splits)

text \<open>
  Claim C7 as stated fails: over a primitive that reads 72 characters and truncates,
  a plaintext of 100 characters is stored without any error, and a different
  plaintext with the same first 72 characters is then accepted.
\<close>

theorem password_setter_long_input_counterexample:
  "length (replicate 100 (CHR ''a'') @ salt example_user) = 132
   \<and> password_setter truncating_generate_password_hash example_user (replicate 100 (CHR ''a''))
       = Inr (example_user\<lparr>password_col := replicate 72 (CHR ''a'')\<rparr>)
   \<and> check_password truncating_check_password_hash
        (example_user\<lparr>password_col := replicate 72 (CHR ''a'')\<rparr>) (replicate 80 (CHR ''a''))"
  by (simp add: password_setter_def check_password_def truncating_generate_password_hash_def
        truncating_check_password_hash_def example_user_def)

end
